theory Spec2Isabelle
  imports Main
begin

section \<open>Python strings and values\<close>

text \<open>
  A Python \<open>str\<close> is modelled as a \<^typ>\<open>string\<close>. Part numbers of the series are ASCII, and
  on ASCII text \<open>len\<close>, slicing, \<open>str.upper\<close> and the whitespace class of \<open>\s\<close> and
  \<open>str.split\<close> are exactly the functions below. The few literals of the scripts that
  lie beyond ASCII are written as their UTF-8 bytes.
\<close>

datatype py_error = IndexError | AttributeError | PatternNotLiteral

definition omega :: string where
  "omega = [CHR 0xCE, CHR 0xA9]"

definition plus_minus :: string where
  "plus_minus = [CHR 0xC2, CHR 0xB1]"

definition degree :: string where
  "degree = [CHR 0xC2, CHR 0xB0]"

definition degree_celsius :: string where
  "degree_celsius = [CHR 0xE2, CHR 0x84, CHR 0x83]"

definition upper_char :: "char \<Rightarrow> char" where
  "upper_char c =
     (let n = (of_char c :: nat) in if 97 \<le> n \<and> n \<le> 122 then char_of (n - 32) else c)"


definition upper :: "string \<Rightarrow> string" where
  "upper s = map upper_char s"


definition isspace :: "char \<Rightarrow> bool" where
  "isspace c = (let n = (of_char c :: nat) in (9 \<le> n \<and> n \<le> 13) \<or> (28 \<le> n \<and> n \<le> 32))"

text \<open>\<open>re.sub(r'\s+', '', s)\<close>: every maximal run of whitespace is replaced by the empty
  string, which leaves the characters that are not whitespace, in order.\<close>

definition re_sub_ws :: "string \<Rightarrow> string" where
  "re_sub_ws s = filter (\<lambda>c. \<not> isspace c) s"

text \<open>\<open>str.split()\<close> without arguments: the maximal runs of characters that are not
  whitespace. \<open>split_scan tok s\<close> scans \<open>s\<close> with the token read so far in \<open>tok\<close>.\<close>

fun split_scan :: "string \<Rightarrow> string \<Rightarrow> string list" where
  "split_scan tok [] = (if tok = [] then [] else [tok])"
| "split_scan tok (c # cs) =
     (if isspace c then (if tok = [] then split_scan [] cs else tok # split_scan [] cs)
      else split_scan (tok @ [c]) cs)"

definition str_split :: "string \<Rightarrow> string list" where
  "str_split s = split_scan [] s"

definition startswith :: "string \<Rightarrow> string \<Rightarrow> bool" where
  "startswith s p = (take (length p) s = p)"

text \<open>\<open>s[i:j]\<close> for \<open>0 \<le> i \<le> j\<close>; Python clamps a slice to the string.\<close>

definition slice :: "nat \<Rightarrow> nat \<Rightarrow> 'a list \<Rightarrow> 'a list" where
  "slice i j s = take (j - i) (drop i s)"

text \<open>\<open>xs[i]\<close> for \<open>i \<ge> 0\<close> raises \<open>IndexError\<close> out of range.\<close>

definition py_index :: "'a list \<Rightarrow> nat \<Rightarrow> py_error + 'a" where
  "py_index xs i = (if i < length xs then Inr (xs ! i) else Inl IndexError)"

section \<open>rk73h_datasheet_generator: decoding a part number\<close>

record decoded =
  series :: string
  size_code :: string
  resistance_code :: string
  tolerance_code :: string
  termination_code :: string
  packaging_code :: string

definition decoded_init :: decoded where
  "decoded_init = \<lparr>series = ''RK73H'', size_code = '''', resistance_code = '''',
     tolerance_code = '''', termination_code = '''', packaging_code = ''''\<rparr>"

definition clean_part_of :: "string \<Rightarrow> string" where
  "clean_part_of part_number = re_sub_ws (upper part_number)"

text \<open>The two conditional expressions of the inner branch:
  \<open>parts[2] if len(parts) > 2 else ''\<close> and \<open>parts[3][0] if len(parts) > 3 else ''\<close>.\<close>

definition parts_resistance :: "string list \<Rightarrow> py_error + string" where
  "parts_resistance parts = (if length parts > 2 then py_index parts 2 else Inr '''')"

definition parts_tolerance :: "string list \<Rightarrow> py_error + string" where
  "parts_tolerance parts =
     (if length parts > 3 then
        (case py_index parts 3 of
           Inl e \<Rightarrow> Inl e
         | Inr p3 \<Rightarrow> (case py_index p3 0 of Inl e \<Rightarrow> Inl e | Inr c \<Rightarrow> Inr [c]))
      else Inr '''')"

definition decode_part_number :: "string \<Rightarrow> py_error + decoded" where
  "decode_part_number part_number =
     (let clean_part = clean_part_of part_number in
      if startswith clean_part ''RK73H'' then
        (let d1 = (if length clean_part > 7
                   then decoded_init\<lparr>size_code := slice 5 7 clean_part\<rparr>
                   else decoded_init);
             parts = str_split clean_part
         in if length parts \<ge> 4 then
              (case parts_resistance parts of
                 Inl e \<Rightarrow> Inl e
               | Inr rc \<Rightarrow>
                   (case parts_tolerance parts of
                      Inl e \<Rightarrow> Inl e
                    | Inr tc \<Rightarrow> Inr (d1\<lparr>resistance_code := rc, tolerance_code := tc\<rparr>)))
            else Inr d1)
      else Inr decoded_init)"

section \<open>Data frames\<close>

text \<open>
  A spreadsheet cell as pandas reads it: empty (\<open>NaN\<close>), text, or a number. The template
  is a frame with the columns \<open>parameter\<close>, \<open>unit\<close> and \<open>value\<close>, one record per row;
  the batch functions add the part-number column in front.
\<close>

datatype cell = NaN | Str string | Num int


record trow =
  parameter :: cell
  unit_col :: cell
  value_col :: cell

record prow = trow +
  Part_Number :: cell

text \<open>\<open>d.get(k, default)\<close> on a dictionary written as an association list.\<close>

definition dict_get :: "('k \<times> 'v) list \<Rightarrow> 'k \<Rightarrow> 'v \<Rightarrow> 'v" where
  "dict_get d k dflt = (case map_of d k of Some v \<Rightarrow> v | None \<Rightarrow> dflt)"

text \<open>
  The loop shared by the three fillers:
  \<^verbatim>\<open>for idx, param in template['parameter'].items():
    if pd.notna(param) and param in mapping:
        template.at[idx, 'value'] = mapping[param]\<close>
  The keys of the mapping are strings, so only a text cell can be one of them.
\<close>

definition fill_row :: "(string \<times> cell) list \<Rightarrow> trow \<Rightarrow> trow" where
  "fill_row mapping r =
     (case parameter r of
        Str param \<Rightarrow> (case map_of mapping param of
                        Some v \<Rightarrow> r\<lparr>value_col := v\<rparr>
                      | None \<Rightarrow> r)
      | _ \<Rightarrow> r)"

definition fill_values :: "(string \<times> cell) list \<Rightarrow> trow list \<Rightarrow> trow list" where
  "fill_values mapping template = map (fill_row mapping) template"

text \<open>\<open>frame.insert(0, 'Part_Number', part_number)\<close>: the same value in every row.\<close>

definition insert_part_number :: "string \<Rightarrow> trow list \<Rightarrow> prow list" where
  "insert_part_number part_number frame =
     map (\<lambda>r. trow.extend r \<lparr>Part_Number = Str part_number\<rparr>) frame"

text \<open>The value a frame shows for a parameter name (its first row of that name).\<close>

definition value_of :: "trow list \<Rightarrow> string \<Rightarrow> cell option" where
  "value_of frame name = map_option value_col (find (\<lambda>r. parameter r = Str name) frame)"

section \<open>rk73h_datasheet_generator: the data provider\<close>

text \<open>The entries of \<open>load_extracted_data\<close> that the filler reads.\<close>

record extracted_specs =
  spec_series :: string
  technology :: string
  operating_temp :: string
  termination_spec :: string
  packaging :: string
  automotive_qualified :: string
  resistance_codes :: "(string \<times> string) list"

definition load_extracted_data :: extracted_specs where
  "load_extracted_data = \<lparr>
     spec_series = ''RK73H'',
     technology = ''Thick Film'',
     operating_temp = ''-55'' @ degree @ ''C to +155'' @ degree @ ''C'',
     termination_spec = ''Cu/Ni/Sn'',
     packaging = ''Tape & Reel'',
     automotive_qualified = ''AEC-Q200'',
     resistance_codes =
       [(''1001'', ''1k'' @ omega),
        (''1002'', ''10k'' @ omega),
        (''1003'', ''100k'' @ omega),
        (''4731'', ''4.73k'' @ omega),
        (''1000'', ''100'' @ omega),
        (''1500'', ''150'' @ omega)]\<rparr>"

definition mk_row :: "string \<Rightarrow> string \<Rightarrow> trow" where
  "mk_row p u = \<lparr>parameter = Str p, unit_col = Str u, value_col = Str ''''\<rparr>"

definition create_default_template :: "trow list" where
  "create_default_template =
     [mk_row ''Specifications'' '''',
      mk_row ''Resistance'' ''[Ohm]'',
      mk_row ''Maximum Working Voltage'' ''[V dc]'',
      mk_row ''Tolerance'' (''['' @ plus_minus @ '' %]''),
      mk_row ''Operating Temperature'' (''['' @ degree_celsius @ '']''),
      mk_row ''Package Size'' ''[EIA]'',
      mk_row ''Rated Power per Element'' ''[W]'',
      mk_row ''Temperature Coefficient'' (''['' @ plus_minus @ '' ppm/K]''),
      mk_row ''Lead Finish'' '''',
      mk_row ''Technology'' '''',
      mk_row ''Series'' '''',
      mk_row ''Automotive Qualified'' '''',
      mk_row ''Environmental Compliance'' '''',
      mk_row ''Packaging Type'' '''']"

text \<open>\<open>RK73HDataProvider\<close>: the template is the sheet \<open>test1.xlsx\<close> when it can be read
  and the default template otherwise, so it is a field of the provider.\<close>

record data_provider =
  extracted_data :: extracted_specs
  template :: "trow list"

definition default_provider :: data_provider where
  "default_provider = \<lparr>extracted_data = load_extracted_data, template = create_default_template\<rparr>"

section \<open>rk73h_datasheet_generator: filling the template\<close>

definition size_mapping :: "(string \<times> string \<times> string) list" where
  "size_mapping =
     [(''1E'', ''0402'', ''0.063W''),
      (''1J'', ''0603'', ''0.1W''),
      (''2A'', ''0805'', ''0.125W''),
      (''2B'', ''1206'', ''0.25W''),
      (''2F'', ''1210'', ''0.5W''),
      (''3A'', ''1812'', ''0.75W''),
      (''3B'', ''2010'', ''0.75W''),
      (''3C'', ''2512'', ''1W'')]"

text \<open>\<open>extracted_data['resistance_codes'].get(resistance_code, 'See datasheet')\<close>\<close>

definition resistance_lookup :: "extracted_specs \<Rightarrow> string \<Rightarrow> string" where
  "resistance_lookup xd code = dict_get (resistance_codes xd) code ''See datasheet''"

text \<open>\<open>package_size\<close> and \<open>power_rating\<close> start empty and are set when the size code is
  a key of \<open>size_mapping\<close>.\<close>

definition size_lookup :: "string \<Rightarrow> string \<times> string" where
  "size_lookup sc = (case map_of size_mapping sc of Some pw \<Rightarrow> pw | None \<Rightarrow> ('''', ''''))"

definition parameter_values :: "string \<Rightarrow> extracted_specs \<Rightarrow> decoded \<Rightarrow> (string \<times> cell) list" where
  "parameter_values part_number xd d =
     (let package_size = fst (size_lookup (size_code d));
          power_rating = snd (size_lookup (size_code d));
          resistance_value = resistance_lookup xd (resistance_code d)
      in [(''Specifications'', Str part_number),
          (''Resistance'', Str resistance_value),
          (''Maximum Working Voltage'', Str ''50V''),
          (''Tolerance'', Str (plus_minus @ ''1%'')),
          (''Operating Temperature'', Str (operating_temp xd)),
          (''Package Size'', Str package_size),
          (''Rated Power per Element'', Str power_rating),
          (''Temperature Coefficient'', Str (plus_minus @ ''200 ppm/'' @ degree @ ''C'')),
          (''Lead Finish'', Str (termination_spec xd)),
          (''Technology'', Str (technology xd)),
          (''Series'', Str (spec_series xd)),
          (''Automotive Qualified'', Str (automotive_qualified xd)),
          (''Environmental Compliance'', Str ''Halogen-Free''),
          (''Packaging Type'', Str (packaging xd))])"

definition fill_template_with_part_data :: "string \<Rightarrow> data_provider \<Rightarrow> py_error + trow list" where
  "fill_template_with_part_data part_number dp =
     (case decode_part_number part_number of
        Inl e \<Rightarrow> Inl e
      | Inr d \<Rightarrow>
          Inr (fill_values (parameter_values part_number (extracted_data dp) d) (template dp)))"

definition separator :: "prow list" where
  "separator = [\<lparr>parameter = Str ''--- Next Part ---'', unit_col = Str '''',
                 value_col = Str '''', Part_Number = Str ''''\<rparr>]"

text \<open>The loop of \<open>process_multiple_parts\<close>, with \<open>all_results\<close> as its state.\<close>

fun process_loop ::
  "data_provider \<Rightarrow> prow list list \<Rightarrow> string list \<Rightarrow> py_error + prow list list" where
  "process_loop dp all_results [] = Inr all_results"
| "process_loop dp all_results (part_number # rest) =
     (case fill_template_with_part_data part_number dp of
        Inl e \<Rightarrow> Inl e
      | Inr filled_template \<Rightarrow>
          (let tagged = insert_part_number part_number filled_template;
               with_sep = (if length all_results > 0 then all_results @ [separator]
                           else all_results)
           in process_loop dp (with_sep @ [tagged]) rest))"

definition process_multiple_parts :: "data_provider \<Rightarrow> string list \<Rightarrow> py_error + prow list" where
  "process_multiple_parts dp part_numbers_list =
     (case process_loop dp [] part_numbers_list of
        Inl e \<Rightarrow> Inl e
      | Inr all_results \<Rightarrow> Inr (if all_results \<noteq> [] then concat all_results else []))"

section \<open>The reference table\<close>

text \<open>
  \<open>RK73H_Full_Data.xlsx\<close> as a frame: one record per row, with its \<open>Part Number\<close> cell and
  the cells of its other columns by column name. Both scripts that read it index the
  \<open>Part Number\<close> column before anything else, so the column is taken to exist.
  \<open>row.get(column, default)\<close> gives the row's cell, or the default when the frame has no
  such column; an empty spreadsheet cell is \<open>NaN\<close>, not a missing column.
\<close>

record ref_row =
  part_no :: cell
  other_cols :: "(string \<times> cell) list"

definition row_get :: "ref_row \<Rightarrow> string \<Rightarrow> cell \<Rightarrow> cell" where
  "row_get r column dflt =
     (if column = ''Part Number'' then part_no r else dict_get (other_cols r) column dflt)"

text \<open>What the scripts print about a part, as a list of events in print order.\<close>

datatype event = Found string | NotFound string | Filled string cell

section \<open>simple_part_filler\<close>

definition data_mapping :: "string \<Rightarrow> ref_row \<Rightarrow> (string \<times> cell) list" where
  "data_mapping part_number part_data =
     [(''Specifications'', Str part_number),
      (''Resistance'', row_get part_data ''Resistance'' (Str '''')),
      (''Maximum Working Voltage'', row_get part_data ''Max Working Voltage (V)'' (Str '''')),
      (''Tolerance'', row_get part_data ''Tolerance (%)'' (Str '''')),
      (''Operating Temperature'', Str (''-55'' @ degree @ ''C to +155'' @ degree @ ''C'')),
      (''Package Size'', row_get part_data ''EIA Code'' (Str '''')),
      (''Rated Power per Element'', row_get part_data ''Power Rating (W)'' (Str '''')),
      (''Temperature Coefficient'',
         row_get part_data (''T.C.R. (ppm/'' @ degree @ ''C)'') (Str '''')),
      (''Lead Finish'', row_get part_data ''Termination Material'' (Str '''')),
      (''Technology'', Str ''Thick Film'')]"

definition blank_row :: "string \<Rightarrow> trow" where
  "blank_row p = \<lparr>parameter = Str p, unit_col = Str '''', value_col = Str ''''\<rparr>"

definition separator3 :: "trow list" where
  "separator3 = [blank_row '''', blank_row ''--- Next Part ---'', blank_row '''']"

text \<open>The loop of \<open>fill_specifications_from_part_numbers\<close>; its state is \<open>all_results\<close>
  and what has been printed. A part without a row of its own is passed over
  (\<open>continue\<close>); otherwise \<open>part_row.iloc[0]\<close> is the first such row.\<close>

fun fill_loop ::
  "ref_row list \<Rightarrow> trow list \<Rightarrow> trow list list \<times> event list \<Rightarrow> string list
     \<Rightarrow> trow list list \<times> event list" where
  "fill_loop full_data tpl st [] = st"
| "fill_loop full_data tpl (all_results, log) (part_number # rest) =
     (case filter (\<lambda>r. part_no r = Str part_number) full_data of
        [] \<Rightarrow> fill_loop full_data tpl (all_results, log @ [NotFound part_number]) rest
      | part_data # _ \<Rightarrow>
          (let filled = fill_values (data_mapping part_number part_data) tpl;
               with_sep = (if length all_results > 0 then all_results @ [separator3]
                           else all_results)
           in fill_loop full_data tpl
                (with_sep @ [filled], log @ [Found part_number]) rest))"

text \<open>The result is the frame written to \<open>filled_specifications.xlsx\<close>, or \<open>None\<close> when
  no part was found, together with the printed events.\<close>

definition fill_specifications_from_part_numbers ::
  "ref_row list \<Rightarrow> trow list \<Rightarrow> string list \<Rightarrow> trow list option \<times> event list" where
  "fill_specifications_from_part_numbers full_data tpl part_numbers =
     (case fill_loop full_data tpl ([], []) part_numbers of
        (all_results, log) \<Rightarrow>
          (if all_results \<noteq> [] then Some (concat all_results) else None, log))"

section \<open>selective_processor\<close>












section \<open>The resistance decoder as the specification words it\<close>

text \<open>
  The scripts have no resistance decoder: they look the code up in the table
  \<open>resistance_codes\<close>. The definitions of this section follow the words of the
  specification (section 4.2), so that the table can be compared with them; they are
  not taken from the source. A code without \<open>R\<close> is its leading digits times ten to
  the power of its last digit, in ohms, shown with the unit prefix of its magnitude.
\<close>

definition is_digit :: "char \<Rightarrow> bool" where
  "is_digit c = (let n = (of_char c :: nat) in 48 \<le> n \<and> n \<le> 57)"

definition digit_value :: "char \<Rightarrow> nat" where
  "digit_value c = of_char c - 48"

definition digits_value :: "string \<Rightarrow> nat" where
  "digits_value s = foldl (\<lambda>acc c. 10 * acc + digit_value c) 0 s"

definition spec_decode_ohms :: "string \<Rightarrow> nat" where
  "spec_decode_ohms code = digits_value (butlast code) * 10 ^ digit_value (last code)"

text \<open>The code is invalid for the specification when its length is outside 3 to 4 or
  a character is neither a digit nor the one permitted \<open>R\<close>.\<close>

definition spec_invalid_resistance_code :: "string \<Rightarrow> bool" where
  "spec_invalid_resistance_code code =
     (length code < 3 \<or> 4 < length code
      \<or> list_ex (\<lambda>c. \<not> is_digit c \<and> c \<noteq> CHR ''R'') code
      \<or> 1 < length (filter (\<lambda>c. c = CHR ''R'') code))"

definition digit_char :: "nat \<Rightarrow> char" where
  "digit_char n = char_of (48 + n mod 10)"

fun show_nat :: "nat \<Rightarrow> string" where
  "show_nat n = (if n < 10 then [digit_char n] else show_nat (n div 10) @ [digit_char n])"

text \<open>The digits after the decimal point of \<open>r / 10 ^ w\<close>, without trailing zeros.\<close>

definition frac_digits :: "nat \<Rightarrow> nat \<Rightarrow> string" where
  "frac_digits w r =
     (let ds = show_nat r; padded = replicate (w - length ds) (CHR ''0'') @ ds
      in rev (dropWhile (\<lambda>c. c = CHR ''0'') (rev padded)))"

definition show_scaled :: "nat \<Rightarrow> nat \<Rightarrow> string" where
  "show_scaled ohms w =
     show_nat (ohms div 10 ^ w) @
     (if ohms mod 10 ^ w = 0 then [] else ''.'' @ frac_digits w (ohms mod 10 ^ w))"

definition spec_display :: "nat \<Rightarrow> string" where
  "spec_display ohms =
     (if ohms < 1000 then show_nat ohms @ omega
      else if ohms < 1000000 then show_scaled ohms 3 @ ''k'' @ omega
      else show_scaled ohms 6 @ ''M'' @ omega)"

section \<open>Batches as sequences of frames\<close>

text \<open>
  Notions used to state what the batch functions return. \<open>spec_batch_rows sep fs\<close> is a
  batch as the specification describes it: the frames in order, each one after the first
  preceded by the separator. \<open>part_rows\<close> is the tagged frame the generator makes for one
  part number, \<open>has_row\<close> says that the reference table has a row of exactly this part
  number, and \<open>simple_rows\<close> is the frame the simple filler makes for a part number from
  the first such row.
\<close>

fun spec_batch_rows :: "'a list \<Rightarrow> 'a list list \<Rightarrow> 'a list" where
  "spec_batch_rows sep [] = []"
| "spec_batch_rows sep (f # fs) = f @ concat (map (\<lambda>g. sep @ g) fs)"

definition part_rows :: "data_provider \<Rightarrow> string \<Rightarrow> prow list" where
  "part_rows dp part_number =
     (case fill_template_with_part_data part_number dp of
        Inl e \<Rightarrow> []
      | Inr filled_template \<Rightarrow> insert_part_number part_number filled_template)"

definition has_row :: "ref_row list \<Rightarrow> string \<Rightarrow> bool" where
  "has_row full_data part_number = (filter (\<lambda>r. part_no r = Str part_number) full_data \<noteq> [])"

definition simple_rows :: "ref_row list \<Rightarrow> trow list \<Rightarrow> string \<Rightarrow> trow list" where
  "simple_rows full_data tpl part_number =
     (case filter (\<lambda>r. part_no r = Str part_number) full_data of
        [] \<Rightarrow> []
      | part_data # _ \<Rightarrow> fill_values (data_mapping part_number part_data) tpl)"

section \<open>An example reference table\<close>

text \<open>
  \<open>RK73H_Full_Data.xlsx\<close> is not part of the sources. This small table, used for concrete
  inputs only, has the columns the scripts read and rows for the part numbers of their
  own examples; one spreadsheet cell of the second row is empty.
\<close>

definition example_row :: "string \<Rightarrow> cell \<Rightarrow> cell \<Rightarrow> cell \<Rightarrow> cell \<Rightarrow> cell \<Rightarrow> ref_row" where
  "example_row pn resistance voltage tolerance eia rated_power =
     \<lparr>part_no = Str pn,
      other_cols =
        [(''Resistance'', resistance),
         (''Max Working Voltage (V)'', voltage),
         (''Tolerance (%)'', tolerance),
         (''EIA Code'', eia),
         (''Power Rating (W)'', rated_power),
         (''Termination Material'', Str ''Cu/Ni/Sn''),
         (''T.C.R. (ppm/'' @ degree @ ''C)'', Num 100)]\<rparr>"

definition example_1003 :: ref_row where
  "example_1003 =
     example_row ''RK73H2B TD 1003 FT'' (Str (''100k'' @ omega)) (Num 200) (Num 1)
       (Str ''1206'') (Str ''0.25'')"

definition example_4731 :: ref_row where
  "example_4731 =
     example_row ''RK73H1E TPL 4731 DT'' (Str (''4.73k'' @ omega)) (Num 50) NaN
       (Str ''0402'') (Str ''0.063'')"

definition example_1002 :: ref_row where
  "example_1002 =
     example_row ''RK73H2B TD 1002 FT'' (Str (''10k'' @ omega)) (Num 200) (Num 1)
       (Str ''1206'') (Str ''0.25'')"

definition example_full_data :: "ref_row list" where
  "example_full_data = [example_1003, example_4731, example_1002]"


section \<open>Facts about splitting\<close>

lemma split_scan_no_space:
  "\<forall>c \<in> set s. \<not> isspace c \<Longrightarrow>
     split_scan tok s = (if tok @ s = [] then [] else [tok @ s])"
  by (induction s arbitrary: tok) auto

lemma str_split_re_sub_ws:
  "str_split (re_sub_ws s) = (if re_sub_ws s = [] then [] else [re_sub_ws s])"
  unfolding str_split_def
  using split_scan_no_space [of "re_sub_ws s" "[]"] by (simp add: re_sub_ws_def)

lemma length_split_clean: "length (str_split (clean_part_of s)) \<le> 1"
  by (simp add: clean_part_of_def str_split_re_sub_ws)

lemma decode_part_number_eq:
  "decode_part_number s =
     Inr (if startswith (clean_part_of s) ''RK73H'' \<and> length (clean_part_of s) > 7
          then decoded_init\<lparr>size_code := slice 5 7 (clean_part_of s)\<rparr>
          else decoded_init)"
proof -
  have "\<not> 4 \<le> length (str_split (clean_part_of s))"
    using length_split_clean [of s] by simp
  then show ?thesis
    by (simp add: decode_part_number_def Let_def)
qed

lemma resistance_lookup_empty: "resistance_lookup load_extracted_data '''' = ''See datasheet''"
  by (simp add: resistance_lookup_def load_extracted_data_def dict_get_def)

lemma few_tokens_example: "length (str_split ''RK73H2B'') < 4"
  by (simp add: str_split_def isspace_def)

lemma decode_example:
  "decode_part_number ''RK73H2B TD 1003 FT'' = Inr (decoded_init\<lparr>size_code := ''2B''\<rparr>)"
  by (simp add: decode_part_number_eq clean_part_of_def upper_def re_sub_ws_def
      isspace_def upper_char_def startswith_def slice_def)

section \<open>The end-to-end scenario\<close>

text \<open>
  C1. For the part number \<open>RK73H2B TD 1003 FT\<close> the claim expects Package Size \<open>1206\<close>,
  Rated Power \<open>0.25W\<close> and Resistance \<open>100k\<Omega>\<close>. Decoding followed by filling the default
  template gives the first two, but the resistance shown is the fallback
  \<open>See datasheet\<close>: the decoder removes the blanks before it splits on them, so the
  code \<open>1003\<close> never reaches the table that maps it to \<open>100k\<Omega>\<close>.
\<close>

theorem end_to_end_RK73H2B_TD_1003_FT:
  "\<exists>t. fill_template_with_part_data ''RK73H2B TD 1003 FT'' default_provider = Inr t
     \<and> value_of t ''Package Size'' = Some (Str ''1206'')
     \<and> value_of t ''Rated Power per Element'' = Some (Str ''0.25W'')
     \<and> value_of t ''Resistance'' = Some (Str ''See datasheet'')
     \<and> Str ''See datasheet'' \<noteq> Str (''100k'' @ omega)"
  by (simp add: fill_template_with_part_data_def decode_example default_provider_def
      parameter_values_def decoded_init_def resistance_lookup_empty size_lookup_def
      size_mapping_def fill_values_def create_default_template_def mk_row_def fill_row_def
      value_of_def omega_def)

section \<open>Decoding never fails\<close>

text \<open>
  C9. For every input string, also one that does not start with \<open>RK73H\<close>, decoding
  returns a record (it never raises) whose series is \<open>RK73H\<close>.
\<close>

theorem decode_series_always_RK73H:
  "\<exists>d. decode_part_number s = Inr d \<and> series d = ''RK73H''"
  by (simp add: decode_part_number_eq decoded_init_def)

text \<open>
  C10. For every input string the decoded resistance code and tolerance code are empty:
  the cleaned string has no whitespace left, so splitting it gives at most one token
  (exactly the cleaned string when it starts with the series prefix) and never four.
  The resistance entry of the filler's values is therefore always the fallback of the
  table lookup.
\<close>

theorem decode_codes_always_empty:
  "(\<exists>d. decode_part_number s = Inr d \<and> resistance_code d = '''' \<and> tolerance_code d = ''''
        \<and> map_of (parameter_values s load_extracted_data d) ''Resistance''
            = Some (Str ''See datasheet''))
   \<and> length (str_split (clean_part_of s)) \<le> 1
   \<and> (startswith (clean_part_of s) ''RK73H''
        \<longrightarrow> str_split (clean_part_of s) = [clean_part_of s])"
proof (intro conjI)
  show "\<exists>d. decode_part_number s = Inr d \<and> resistance_code d = '''' \<and> tolerance_code d = ''''
        \<and> map_of (parameter_values s load_extracted_data d) ''Resistance''
            = Some (Str ''See datasheet'')"
    by (simp add: decode_part_number_eq decoded_init_def parameter_values_def
        resistance_lookup_empty)
  show "length (str_split (clean_part_of s)) \<le> 1"
    by (rule length_split_clean)
  show "startswith (clean_part_of s) ''RK73H''
        \<longrightarrow> str_split (clean_part_of s) = [clean_part_of s]"
    by (auto simp add: clean_part_of_def str_split_re_sub_ws startswith_def)
qed

text \<open>The part number of the examples starts with the prefix, and its cleaned form is
  the single token.\<close>

theorem decode_codes_always_empty_witness:
  "startswith (clean_part_of ''RK73H2B TD 1003 FT'') ''RK73H''
   \<and> str_split (clean_part_of ''RK73H2B TD 1003 FT'') = [''RK73H2BTD1003FT'']"
proof -
  have c: "clean_part_of ''RK73H2B TD 1003 FT'' = ''RK73H2BTD1003FT''"
    by (simp add: clean_part_of_def upper_def re_sub_ws_def isspace_def upper_char_def)
  have h: "startswith (clean_part_of ''RK73H2B TD 1003 FT'') ''RK73H''"
    by (simp add: c startswith_def)
  from decode_codes_always_empty [of "''RK73H2B TD 1003 FT''"] h
  have "str_split (clean_part_of ''RK73H2B TD 1003 FT'') = [clean_part_of ''RK73H2B TD 1003 FT'']"
    by blast
  with h show ?thesis by (simp add: c)
qed

section \<open>Part numbers with fewer than four tokens\<close>

text \<open>
  C5, as the code has it. Decoding a part number with fewer than four
  whitespace-separated tokens never raises, and the segments after the size code
  (resistance, tolerance, termination and packaging code) are the empty string; the
  decoder has no \<open>unknown\<close> marker.
\<close>

theorem decode_few_tokens_empty_segments:
  "length (str_split s) < 4 \<Longrightarrow>
   \<exists>d. decode_part_number s = Inr d \<and> resistance_code d = '''' \<and> tolerance_code d = ''''
       \<and> termination_code d = '''' \<and> packaging_code d = ''''"
  by (simp add: decode_part_number_eq decoded_init_def)

theorem decode_few_tokens_empty_segments_witness:
  "length (str_split ''RK73H2B'') < 4 \<and>
   (\<exists>d. decode_part_number ''RK73H2B'' = Inr d \<and> resistance_code d = '''' \<and> tolerance_code d = ''''
       \<and> termination_code d = '''' \<and> packaging_code d = '''')"
  using decode_few_tokens_empty_segments [OF few_tokens_example] few_tokens_example by blast

text \<open>
  C5 as stated fails at \<open>RK73H2B\<close>: the claim expects the size code \<open>2B\<close> and the
  other segments \<open>unknown\<close>; the decoder returns the empty string for all of them
  (the size code is read only from a cleaned string of more than seven characters).
\<close>

theorem decode_RK73H2B_alone:
  "decode_part_number ''RK73H2B'' =
     Inr \<lparr>series = ''RK73H'', size_code = '''', resistance_code = '''',
          tolerance_code = '''', termination_code = '''', packaging_code = ''''\<rparr>
   \<and> '''' \<noteq> ''2B'' \<and> '''' \<noteq> ''unknown''"
  by (simp add: decode_part_number_eq decoded_init_def clean_part_of_def upper_def re_sub_ws_def
      isspace_def upper_char_def startswith_def)

section \<open>The resistance value is a table lookup\<close>

lemma resistance_keys:
  "map fst (resistance_codes load_extracted_data) =
     [''1001'', ''1002'', ''1003'', ''4731'', ''1000'', ''1500'']"
  by (simp add: load_extracted_data_def)

lemma resistance_lookup_miss:
  "code \<notin> set (map fst (resistance_codes xd)) \<Longrightarrow> resistance_lookup xd code = ''See datasheet''"
  by (simp add: resistance_lookup_def dict_get_def map_of_eq_None_iff [THEN iffD2])

lemma char_of_eq_iff: "(char_of (n::nat) = c) = (n mod 256 = of_char c)"
  by (metis char_of_char of_char_of)

lemmas spec_eval = spec_display_def spec_decode_ohms_def digits_value_def digit_value_def
  show_scaled_def frac_digits_def digit_char_def Let_def char_of_eq_iff

lemma resistance_table_lookup:
  "list_all (\<lambda>(k, v). resistance_lookup load_extracted_data k = v)
     (resistance_codes load_extracted_data)"
  by (simp add: resistance_lookup_def dict_get_def load_extracted_data_def)

lemma resistance_table_spec:
  "list_all (\<lambda>(k, v). spec_display (spec_decode_ohms k) = v)
     (resistance_codes load_extracted_data)"
  by (simp add: load_extracted_data_def spec_eval)

lemma resistance_table_agrees:
  "list_all (\<lambda>(k, v). resistance_lookup load_extracted_data k = v
                       \<and> spec_display (spec_decode_ohms k) = v)
     (resistance_codes load_extracted_data)"
  using resistance_table_lookup resistance_table_spec
  unfolding list_all_iff by fast

lemma invalid_code_not_key:
  "spec_invalid_resistance_code code \<Longrightarrow>
     code \<notin> set (map fst (resistance_codes load_extracted_data))"
  by (auto simp add: load_extracted_data_def spec_invalid_resistance_code_def is_digit_def)

text \<open>
  C2, as the code has it. The resistance value is not computed from the digits of the
  code: it is read from a table of six four-character codes. On those six codes the
  entry is what the rule of the claim gives (leading digits times ten to the power of
  the last digit, shown with its unit prefix); every other code, and so every
  three-character code, gives the fallback \<open>See datasheet\<close>.
\<close>

theorem resistance_lookup_by_table:
  "map fst (resistance_codes load_extracted_data) =
     [''1001'', ''1002'', ''1003'', ''4731'', ''1000'', ''1500'']
   \<and> list_all (\<lambda>(k, v). resistance_lookup load_extracted_data k = v
                          \<and> spec_display (spec_decode_ohms k) = v)
        (resistance_codes load_extracted_data)
   \<and> (code \<notin> set (map fst (resistance_codes load_extracted_data))
        \<longrightarrow> resistance_lookup load_extracted_data code = ''See datasheet'')
   \<and> (length code = 3 \<longrightarrow> resistance_lookup load_extracted_data code = ''See datasheet'')"
proof (intro conjI impI)
  show "map fst (resistance_codes load_extracted_data) =
     [''1001'', ''1002'', ''1003'', ''4731'', ''1000'', ''1500'']"
    by (rule resistance_keys)
  show "list_all (\<lambda>(k, v). resistance_lookup load_extracted_data k = v
                          \<and> spec_display (spec_decode_ohms k) = v)
        (resistance_codes load_extracted_data)"
    by (rule resistance_table_agrees)
next
  assume "code \<notin> set (map fst (resistance_codes load_extracted_data))"
  then show "resistance_lookup load_extracted_data code = ''See datasheet''"
    by (rule resistance_lookup_miss)
next
  assume "length code = 3"
  then have "code \<notin> set (map fst (resistance_codes load_extracted_data))"
    by (auto simp add: resistance_keys)
  then show "resistance_lookup load_extracted_data code = ''See datasheet''"
    by (rule resistance_lookup_miss)
qed

theorem resistance_lookup_by_table_witness:
  "''103'' \<notin> set (map fst (resistance_codes load_extracted_data))
   \<and> length ''103'' = 3
   \<and> resistance_lookup load_extracted_data ''103'' = ''See datasheet''"
proof -
  have h: "''103'' \<notin> set (map fst (resistance_codes load_extracted_data))"
    by (simp add: resistance_keys)
  have l: "length ''103'' = 3"
    by simp
  from resistance_lookup_by_table [of "''103''"] l
  have "resistance_lookup load_extracted_data ''103'' = ''See datasheet''"
    by blast
  with h l show ?thesis by blast
qed

text \<open>
  C2 as stated fails at the code \<open>103\<close> of the claim's own example: the rule gives
  10 times 10 to the power 3 ohms, shown as \<open>10k\<Omega>\<close>, and the lookup gives
  \<open>See datasheet\<close>.
\<close>

theorem resistance_lookup_103:
  "resistance_lookup load_extracted_data ''103'' = ''See datasheet''
   \<and> spec_decode_ohms ''103'' = 10 * 10 ^ 3
   \<and> spec_display (spec_decode_ohms ''103'') = ''10k'' @ omega
   \<and> ''See datasheet'' \<noteq> ''10k'' @ omega"
  by (simp add: resistance_lookup_def dict_get_def load_extracted_data_def spec_eval omega_def)

text \<open>
  C6, as the code has it. The lookup never fails: it returns an entry of the table or
  the fallback, and for a code that the specification calls invalid (a length outside
  3 to 4, or a character that is neither a digit nor the one permitted \<open>R\<close>) it returns
  the fallback \<open>See datasheet\<close>.
\<close>

theorem resistance_lookup_never_fails:
  "resistance_lookup xd code \<in> set (''See datasheet'' # map snd (resistance_codes xd))
   \<and> (spec_invalid_resistance_code code
        \<longrightarrow> resistance_lookup load_extracted_data code = ''See datasheet'')"
proof (intro conjI impI)
  show "resistance_lookup xd code \<in> set (''See datasheet'' # map snd (resistance_codes xd))"
  proof (cases "map_of (resistance_codes xd) code")
    case None
    then show ?thesis by (simp add: resistance_lookup_def dict_get_def)
  next
    case (Some v)
    then have "(code, v) \<in> set (resistance_codes xd)" by (rule map_of_SomeD)
    then have "v \<in> snd ` set (resistance_codes xd)" by force
    with Some show ?thesis by (simp add: resistance_lookup_def dict_get_def)
  qed
next
  assume "spec_invalid_resistance_code code"
  then have "code \<notin> set (map fst (resistance_codes load_extracted_data))"
    by (rule invalid_code_not_key)
  then show "resistance_lookup load_extracted_data code = ''See datasheet''"
    by (rule resistance_lookup_miss)
qed

theorem resistance_lookup_never_fails_witness:
  "spec_invalid_resistance_code ''12''
   \<and> resistance_lookup load_extracted_data ''12'' = ''See datasheet''"
proof -
  have h: "spec_invalid_resistance_code ''12''"
    by (simp add: spec_invalid_resistance_code_def)
  from resistance_lookup_never_fails [of load_extracted_data "''12''"] h
  have "resistance_lookup load_extracted_data ''12'' = ''See datasheet''"
    by blast
  with h show ?thesis by blast
qed

text \<open>
  C6 as stated fails at codes of length 2 and 5 and at a code with a letter other than
  \<open>R\<close>: each is invalid for the specification, and the lookup returns a value for it.
\<close>

theorem resistance_lookup_invalid_codes:
  "spec_invalid_resistance_code ''12''
   \<and> resistance_lookup load_extracted_data ''12'' = ''See datasheet''
   \<and> spec_invalid_resistance_code ''12345''
   \<and> resistance_lookup load_extracted_data ''12345'' = ''See datasheet''
   \<and> spec_invalid_resistance_code ''1A03''
   \<and> resistance_lookup load_extracted_data ''1A03'' = ''See datasheet''"
  by (simp add: resistance_lookup_def dict_get_def load_extracted_data_def
      spec_invalid_resistance_code_def is_digit_def)

section \<open>Rows of a batch\<close>

lemma fill_template_total:
  "\<exists>t. fill_template_with_part_data pn dp = Inr t \<and> length t = length (template dp)"
  by (simp add: fill_template_with_part_data_def decode_part_number_eq fill_values_def)

lemma length_part_rows: "length (part_rows dp pn) = length (template dp)"
proof -
  obtain t where "fill_template_with_part_data pn dp = Inr t" "length t = length (template dp)"
    using fill_template_total by blast
  then show ?thesis
    by (simp add: part_rows_def insert_part_number_def)
qed

lemma length_simple_rows: "has_row fd pn \<Longrightarrow> length (simple_rows fd tpl pn) = length tpl"
  by (simp add: has_row_def simple_rows_def fill_values_def split: list.splits)

lemma length_after_first:
  "\<forall>f \<in> set fs. length f = n \<Longrightarrow>
     length (concat (map (\<lambda>g. sep @ g) fs)) = length fs * (length sep + n)"
  by (induction fs) simp_all

lemma length_spec_batch_rows:
  assumes "\<forall>f \<in> set fs. length f = n" and "fs \<noteq> []"
  shows "length (spec_batch_rows sep fs) = length fs * n + (length fs - 1) * length sep"
proof (cases fs)
  case Nil
  with assms(2) show ?thesis by simp
next
  case (Cons f rest)
  with assms(1) have "length f = n" and "\<forall>g \<in> set rest. length g = n"
    by simp_all
  from \<open>\<forall>g \<in> set rest. length g = n\<close>
  have "length (concat (map (\<lambda>g. sep @ g) rest)) = length rest * (length sep + n)"
    by (simp add: length_after_first)
  with Cons \<open>length f = n\<close> show ?thesis
    by (simp add: algebra_simps)
qed

lemma process_loop_append:
  "acc \<noteq> [] \<Longrightarrow>
     \<exists>res. process_loop dp acc pns = Inr res \<and> res \<noteq> []
        \<and> concat res = concat acc @ concat (map (\<lambda>pn. separator @ part_rows dp pn) pns)"
proof (induction pns arbitrary: acc)
  case Nil
  then show ?case by simp
next
  case (Cons pn pns)
  obtain t where t: "fill_template_with_part_data pn dp = Inr t"
    using fill_template_total by blast
  let ?acc = "acc @ [separator] @ [insert_part_number pn t]"
  have "?acc \<noteq> []" by simp
  from Cons.IH [OF this] obtain res where
    res: "process_loop dp ?acc pns = Inr res" "res \<noteq> []"
         "concat res = concat ?acc @ concat (map (\<lambda>pn. separator @ part_rows dp pn) pns)"
    by blast
  from Cons.prems t res(1) have "process_loop dp acc (pn # pns) = Inr res"
    by (simp add: Let_def)
  moreover from t have "part_rows dp pn = insert_part_number pn t"
    by (simp add: part_rows_def)
  ultimately show ?case
    using res(2,3) by simp
qed

lemma process_multiple_parts_rows:
  "process_multiple_parts dp pns = Inr (spec_batch_rows separator (map (part_rows dp) pns))"
proof (cases pns)
  case Nil
  then show ?thesis by (simp add: process_multiple_parts_def)
next
  case (Cons pn rest)
  obtain t where t: "fill_template_with_part_data pn dp = Inr t"
    using fill_template_total by blast
  have "[insert_part_number pn t] \<noteq> []" by simp
  from process_loop_append [OF this, of dp rest] obtain res where
    res: "process_loop dp [insert_part_number pn t] rest = Inr res" "res \<noteq> []"
         "concat res = concat [insert_part_number pn t]
                        @ concat (map (\<lambda>pn. separator @ part_rows dp pn) rest)"
    by blast
  from t res(1) have "process_loop dp [] (pn # rest) = Inr res"
    by (simp add: Let_def)
  moreover from t have "part_rows dp pn = insert_part_number pn t"
    by (simp add: part_rows_def)
  ultimately show ?thesis
    using Cons res(2,3) by (simp add: process_multiple_parts_def comp_def)
qed

lemma fill_loop_append:
  "acc \<noteq> [] \<Longrightarrow>
     fst (fill_loop fd tpl (acc, log) pns) \<noteq> []
     \<and> concat (fst (fill_loop fd tpl (acc, log) pns))
         = concat acc @ concat (map (\<lambda>pn. separator3 @ simple_rows fd tpl pn)
                                  (filter (has_row fd) pns))"
proof (induction pns arbitrary: acc log)
  case Nil
  then show ?case by simp
next
  case (Cons pn pns)
  show ?case
  proof (cases "filter (\<lambda>r. part_no r = Str pn) fd")
    case Nil
    with Cons show ?thesis
      by (simp add: has_row_def)
  next
    case (Cons r rs)
    let ?acc = "acc @ [separator3] @ [fill_values (data_mapping pn r) tpl]"
    have "?acc \<noteq> []" by simp
    from Cons.IH [OF this, of "log @ [Found pn]"] Cons Cons.prems show ?thesis
      by (simp add: has_row_def simple_rows_def Let_def)
  qed
qed

lemma fill_loop_rows:
  "(fst (fill_loop fd tpl ([], log) pns) = [] \<longleftrightarrow> filter (has_row fd) pns = [])
   \<and> concat (fst (fill_loop fd tpl ([], log) pns))
       = spec_batch_rows separator3 (map (simple_rows fd tpl) (filter (has_row fd) pns))"
proof (induction pns arbitrary: log)
  case Nil
  then show ?case by simp
next
  case (Cons pn pns)
  show ?case
  proof (cases "filter (\<lambda>r. part_no r = Str pn) fd")
    case Nil
    with Cons show ?thesis
      by (simp add: has_row_def)
  next
    case (Cons r rs)
    then have hr: "has_row fd pn"
      by (simp add: has_row_def)
    from Cons have sr: "simple_rows fd tpl pn = fill_values (data_mapping pn r) tpl"
      by (simp add: simple_rows_def)
    have "[fill_values (data_mapping pn r) tpl] \<noteq> []" by simp
    from fill_loop_append [OF this, of fd tpl "log @ [Found pn]" pns] Cons show ?thesis
      by (simp add: hr sr Let_def comp_def)
  qed
qed

lemma fill_specifications_rows:
  "fst (fill_specifications_from_part_numbers fd tpl pns) =
     (if filter (has_row fd) pns = [] then None
      else Some (spec_batch_rows separator3 (map (simple_rows fd tpl) (filter (has_row fd) pns))))"
proof (cases "fill_loop fd tpl ([], []) pns")
  case (Pair all_results log)
  with fill_loop_rows [of fd tpl "[]" pns] show ?thesis
    by (simp add: fill_specifications_from_part_numbers_def)
qed

lemma part_number_column:
  "map Part_Number (part_rows dp pn) = replicate (length (template dp)) (Str pn)"
proof -
  obtain t where t: "fill_template_with_part_data pn dp = Inr t" "length t = length (template dp)"
    using fill_template_total by blast
  have "map Part_Number (insert_part_number pn t) = map (\<lambda>r. Str pn) t"
    by (simp add: insert_part_number_def trow.defs)
  with t show ?thesis
    by (simp add: part_rows_def map_replicate_const)
qed

lemma length_batch_generator:
  "pns \<noteq> [] \<Longrightarrow>
     length (spec_batch_rows separator (map (part_rows dp) pns))
       = length pns * length (template dp) + (length pns - 1)"
  using length_spec_batch_rows [of "map (part_rows dp) pns" "length (template dp)" separator]
  by (simp add: length_part_rows separator_def)

lemma length_batch_simple:
  "filter (has_row fd) pns \<noteq> [] \<Longrightarrow>
     length (spec_batch_rows separator3 (map (simple_rows fd tpl) (filter (has_row fd) pns)))
       = length (filter (has_row fd) pns) * length tpl
         + 3 * (length (filter (has_row fd) pns) - 1)"
  using length_spec_batch_rows
          [of "map (simple_rows fd tpl) (filter (has_row fd) pns)" "length tpl" separator3]
  by (simp add: length_simple_rows separator3_def)

lemmas example_defs = example_full_data_def example_1003_def example_4731_def example_1002_def
  example_row_def

lemma example_parts_found:
  "has_row example_full_data ''RK73H2B TD 1003 FT''"
  "has_row example_full_data ''RK73H1E TPL 4731 DT''"
  by (simp_all add: has_row_def example_defs)

lemma length_default_template: "length create_default_template = 14"
  by (simp add: create_default_template_def)

section \<open>Row counts\<close>

text \<open>
  C7, as the code has it. The generator's batch is the tagged frames of the parts in
  order, with its one-row separator before every frame but the first: one part gives
  as many rows as the template, and \<open>N\<close> parts give \<open>N\<close> times the template length plus
  \<open>N - 1\<close> rows. The simple filler makes a frame only for the part numbers that have a
  row in the reference table, and its separator block has three rows: \<open>M\<close> such parts
  give \<open>M\<close> times the template length plus \<open>3 (M - 1)\<close> rows, and none gives no frame.
\<close>

theorem batch_row_counts:
  "process_multiple_parts dp pns = Inr (spec_batch_rows separator (map (part_rows dp) pns))
   \<and> length separator = 1
   \<and> (pns \<noteq> [] \<longrightarrow>
        length (spec_batch_rows separator (map (part_rows dp) pns))
          = length pns * length (template dp) + (length pns - 1))
   \<and> fst (fill_specifications_from_part_numbers fd tpl pns) =
       (if filter (has_row fd) pns = [] then None
        else Some (spec_batch_rows separator3
                     (map (simple_rows fd tpl) (filter (has_row fd) pns))))
   \<and> length separator3 = 3
   \<and> (filter (has_row fd) pns \<noteq> [] \<longrightarrow>
        length (spec_batch_rows separator3 (map (simple_rows fd tpl) (filter (has_row fd) pns)))
          = length (filter (has_row fd) pns) * length tpl
            + 3 * (length (filter (has_row fd) pns) - 1))"
proof (intro conjI impI)
  show "process_multiple_parts dp pns = Inr (spec_batch_rows separator (map (part_rows dp) pns))"
    by (rule process_multiple_parts_rows)
  show "length separator = 1"
    by (simp add: separator_def)
  show "fst (fill_specifications_from_part_numbers fd tpl pns) =
       (if filter (has_row fd) pns = [] then None
        else Some (spec_batch_rows separator3
                     (map (simple_rows fd tpl) (filter (has_row fd) pns))))"
    by (rule fill_specifications_rows)
  show "length separator3 = 3"
    by (simp add: separator3_def)
next
  assume "pns \<noteq> []"
  then show "length (spec_batch_rows separator (map (part_rows dp) pns))
          = length pns * length (template dp) + (length pns - 1)"
    by (rule length_batch_generator)
next
  assume "filter (has_row fd) pns \<noteq> []"
  then show "length (spec_batch_rows separator3
                 (map (simple_rows fd tpl) (filter (has_row fd) pns)))
          = length (filter (has_row fd) pns) * length tpl
            + 3 * (length (filter (has_row fd) pns) - 1)"
    by (rule length_batch_simple)
qed

text \<open>Two part numbers, both in the example table, on the default template of 14 rows:
  29 rows from the generator and 31 from the simple filler.\<close>

theorem batch_row_counts_witness:
  "[''RK73H2B TD 1003 FT'', ''RK73H1E TPL 4731 DT''] \<noteq> []
   \<and> filter (has_row example_full_data) [''RK73H2B TD 1003 FT'', ''RK73H1E TPL 4731 DT''] \<noteq> []
   \<and> (\<exists>out. process_multiple_parts default_provider
               [''RK73H2B TD 1003 FT'', ''RK73H1E TPL 4731 DT''] = Inr out
            \<and> length out = 29)
   \<and> (\<exists>out. fst (fill_specifications_from_part_numbers example_full_data
                    create_default_template
                    [''RK73H2B TD 1003 FT'', ''RK73H1E TPL 4731 DT'']) = Some out
            \<and> length out = 31)"
proof -
  let ?pns = "[''RK73H2B TD 1003 FT'', ''RK73H1E TPL 4731 DT'']"
  have n: "?pns \<noteq> []" by simp
  have f: "filter (has_row example_full_data) ?pns \<noteq> []"
    by (simp add: example_parts_found)
  note inst = batch_row_counts [of default_provider ?pns example_full_data create_default_template]
  from inst n have g: "\<exists>out. process_multiple_parts default_provider ?pns = Inr out
                        \<and> length out = 29"
    by (simp add: default_provider_def length_default_template)
  from inst f have s: "\<exists>out. fst (fill_specifications_from_part_numbers example_full_data
                    create_default_template ?pns) = Some out \<and> length out = 31"
    by (simp add: example_parts_found length_default_template)
  from n f g s show ?thesis by blast
qed

text \<open>
  C7 as stated fails on the simple filler: for the two example part numbers and the
  default template of 14 rows it writes 31 rows, not \<open>2 * 14 + (2 - 1) = 29\<close>.
\<close>

theorem simple_filler_two_parts_31_rows:
  "map_option length
     (fst (fill_specifications_from_part_numbers example_full_data create_default_template
             [''RK73H2B TD 1003 FT'', ''RK73H1E TPL 4731 DT''])) = Some 31
   \<and> length create_default_template = 14
   \<and> (31::nat) \<noteq> 2 * 14 + (2 - 1)"
proof -
  let ?pns = "[''RK73H2B TD 1003 FT'', ''RK73H1E TPL 4731 DT'']"
  have f: "filter (has_row example_full_data) ?pns \<noteq> []"
    by (simp add: example_parts_found)
  from length_batch_simple [OF f, of create_default_template]
  show ?thesis
    by (simp add: fill_specifications_rows example_parts_found length_default_template)
qed

section \<open>Part numbers of another series\<close>

lemma fill_loop_log_kept:
  "x \<in> set log \<Longrightarrow> x \<in> set (snd (fill_loop fd tpl (acc, log) pns))"
proof (induction pns arbitrary: acc log)
  case Nil
  then show ?case by simp
next
  case (Cons pn pns)
  then show ?case
    by (cases "filter (\<lambda>r. part_no r = Str pn) fd") (simp_all add: Let_def)
qed

lemma fill_loop_not_found:
  "pn \<in> set pns \<Longrightarrow> \<not> has_row fd pn \<Longrightarrow>
     NotFound pn \<in> set (snd (fill_loop fd tpl (acc, log) pns))"
proof (induction pns arbitrary: acc log)
  case Nil
  then show ?case by simp
next
  case (Cons p pns)
  show ?case
  proof (cases "p = pn")
    case True
    with Cons.prems(2) have "filter (\<lambda>r. part_no r = Str p) fd = []"
      by (simp add: has_row_def)
    then show ?thesis
      using True fill_loop_log_kept [of "NotFound pn" "log @ [NotFound pn]" fd tpl acc pns]
      by simp
  next
    case False
    with Cons.prems(1) have "pn \<in> set pns" by simp
    from Cons.IH [OF this Cons.prems(2)] show ?thesis
      by (cases "filter (\<lambda>r. part_no r = Str p) fd") (simp_all add: Let_def)
  qed
qed

lemma decode_XYZ123: "decode_part_number ''XYZ123'' = Inr decoded_init"
  by (simp add: decode_part_number_eq clean_part_of_def upper_def re_sub_ws_def
      isspace_def upper_char_def startswith_def)

text \<open>
  C8, as the code has it. The generator does not reject a part number that lacks the
  series prefix: decoding returns the initial segments, and in a batch the part gets its
  frame like every other part, each row tagged with the part number, and the parts after
  it are processed. The simple filler passes over a part number that has no row in the
  reference table, whatever its prefix: the frame written is that of the batch without
  it, and the only trace is the printed \<open>Not found\<close> line.
\<close>

theorem unknown_prefix_still_processed:
  "(\<not> startswith (clean_part_of pn) ''RK73H'' \<longrightarrow> decode_part_number pn = Inr decoded_init)
   \<and> process_multiple_parts dp (ps @ pn # qs) =
       Inr (spec_batch_rows separator
              (map (part_rows dp) ps @ part_rows dp pn # map (part_rows dp) qs))
   \<and> map Part_Number (part_rows dp pn) = replicate (length (template dp)) (Str pn)
   \<and> (\<not> has_row fd pn \<longrightarrow>
        fst (fill_specifications_from_part_numbers fd tpl (ps @ pn # qs))
          = fst (fill_specifications_from_part_numbers fd tpl (ps @ qs))
        \<and> NotFound pn \<in> set (snd (fill_specifications_from_part_numbers fd tpl (ps @ pn # qs))))"
proof (intro conjI impI)
  assume "\<not> startswith (clean_part_of pn) ''RK73H''"
  then show "decode_part_number pn = Inr decoded_init"
    by (simp add: decode_part_number_eq)
next
  show "process_multiple_parts dp (ps @ pn # qs) =
       Inr (spec_batch_rows separator
              (map (part_rows dp) ps @ part_rows dp pn # map (part_rows dp) qs))"
    using process_multiple_parts_rows [of dp "ps @ pn # qs"] by simp
  show "map Part_Number (part_rows dp pn) = replicate (length (template dp)) (Str pn)"
    by (rule part_number_column)
next
  assume "\<not> has_row fd pn"
  then show "fst (fill_specifications_from_part_numbers fd tpl (ps @ pn # qs))
          = fst (fill_specifications_from_part_numbers fd tpl (ps @ qs))"
    by (simp add: fill_specifications_rows)
next
  assume nf: "\<not> has_row fd pn"
  have "pn \<in> set (ps @ pn # qs)" by simp
  from fill_loop_not_found [OF this nf, of tpl "[]" "[]"]
  show "NotFound pn \<in> set (snd (fill_specifications_from_part_numbers fd tpl (ps @ pn # qs)))"
    by (cases "fill_loop fd tpl ([], []) (ps @ pn # qs)")
       (simp add: fill_specifications_from_part_numbers_def)
qed

lemma XYZ123_no_prefix: "\<not> startswith (clean_part_of ''XYZ123'') ''RK73H''"
  by (simp add: clean_part_of_def upper_def re_sub_ws_def isspace_def upper_char_def
      startswith_def)

lemma XYZ123_no_row: "\<not> has_row example_full_data ''XYZ123''"
  by (simp add: has_row_def example_defs)

theorem unknown_prefix_still_processed_witness:
  "\<not> startswith (clean_part_of ''XYZ123'') ''RK73H''
   \<and> \<not> has_row example_full_data ''XYZ123''
   \<and> decode_part_number ''XYZ123'' = Inr decoded_init
   \<and> fst (fill_specifications_from_part_numbers example_full_data create_default_template
            ([''RK73H2B TD 1003 FT''] @ ''XYZ123'' # [''RK73H1E TPL 4731 DT'']))
       = fst (fill_specifications_from_part_numbers example_full_data create_default_template
            ([''RK73H2B TD 1003 FT''] @ [''RK73H1E TPL 4731 DT'']))
   \<and> NotFound ''XYZ123''
       \<in> set (snd (fill_specifications_from_part_numbers example_full_data
                      create_default_template
                      ([''RK73H2B TD 1003 FT''] @ ''XYZ123'' # [''RK73H1E TPL 4731 DT''])))"
  using unknown_prefix_still_processed
          [of "''XYZ123''" default_provider "[''RK73H2B TD 1003 FT'']"
              "[''RK73H1E TPL 4731 DT'']" example_full_data create_default_template]
        XYZ123_no_prefix XYZ123_no_row
  by blast

text \<open>
  C8 as stated fails at \<open>XYZ123\<close>: decoding it is no error, and the generator's batch
  for it holds its 14 rows, each tagged \<open>XYZ123\<close>.
\<close>

theorem XYZ123_in_results:
  "decode_part_number ''XYZ123'' = Inr decoded_init
   \<and> process_multiple_parts default_provider [''XYZ123'']
       = Inr (part_rows default_provider ''XYZ123'')
   \<and> map Part_Number (part_rows default_provider ''XYZ123'') = replicate 14 (Str ''XYZ123'')"
  using process_multiple_parts_rows [of default_provider "[''XYZ123'']"]
        part_number_column [of default_provider "''XYZ123''"]
  by (simp add: decode_XYZ123 default_provider_def length_default_template)

section \<open>The first row of a selection\<close>





section \<open>The fixed parameter names\<close>
















section \<open>Looking a part number up in the reference table\<close>






















end
